theory Spec2Isabelle
  imports Complex_Main
begin

section \<open>MSD risk survey: scoring, tiering and recommendations (app.py)\<close>

text \<open>
  The risk model of \<^verbatim>\<open>app.py\<close>: the tier classifier \<^verbatim>\<open>tier_from_score\<close>, the three
  scorers \<^verbatim>\<open>score_nzmac\<close>, \<^verbatim>\<open>score_nzrapp\<close>, \<^verbatim>\<open>score_nzart\<close>, the selector
  \<^verbatim>\<open>recommendations\<close> and the import branch of the Import/Export page.

  Python strings are \<^typ>\<open>string\<close>, dictionaries are maps, and every exception is a
  value \<open>Inl e\<close> of a sum type. The scorers are modelled twice.

  The exact model (\<open>np_interp\<close>, \<open>score_nzmac\<close>, \<open>score_nzrapp\<close>, \<open>score_nzart\<close>) takes
  finite numbers as \<^typ>\<open>real\<close> and computes without rounding.

  The double model (\<open>np_interp_fl\<close>, \<open>score_nzmac_fl\<close>, \<open>score_nzrapp_fl\<close>,
  \<open>score_nzart_fl\<close>) takes the numbers as Python passes them (an int, a float that may be
  nan or infinite, or None), converts them to doubles as numpy does, and rounds every
  decimal literal and the result of every arithmetic operation with a parameter \<open>rnd\<close>,
  the rounding of a real number to a double. What is proved of it is proved for every
  \<open>rnd\<close>. With \<open>rnd = id\<close> and finite floats it is the exact model.
\<close>

subsection \<open>Python and numpy primitives\<close>

datatype py_error =
  KeyError string | ValueError string | ParserError string | OverflowError string

text \<open>\<^verbatim>\<open>d[k]\<close>: raises KeyError when the key is absent.\<close>

definition getitem :: "(string \<rightharpoonup> 'v) \<Rightarrow> string \<Rightarrow> py_error + 'v" where
  "getitem d k = (case d k of None \<Rightarrow> Inl (KeyError k) | Some v \<Rightarrow> Inr v)"

text \<open>\<^verbatim>\<open>d.get(k, default)\<close>: never raises.\<close>

definition dict_get :: "(string \<rightharpoonup> 'v) \<Rightarrow> string \<Rightarrow> 'v \<Rightarrow> 'v" where
  "dict_get d k dflt = (case d k of None \<Rightarrow> dflt | Some v \<Rightarrow> v)"

text \<open>
  \<^verbatim>\<open>np.interp(x, xp, fp)\<close> for a scalar \<open>x\<close>, as numpy computes it: an empty \<open>xp\<close> or
  lists of different lengths raise ValueError; \<open>x\<close> beyond the last sample point gives the
  last value and \<open>x\<close> before the first gives the first; otherwise the search returns the
  index \<open>j\<close> reached by stepping over the sample points that are \<open>\<le> x\<close>, and the result
  is \<open>fp[j]\<close> at the last index or on a sample point, and
  \<open>slope * (x - xp[j]) + fp[j]\<close> in between. numpy scans tables of up to four points
  linearly, as here, and bisects longer ones; on increasing sample points, which numpy
  requires, both give the same index.
\<close>

definition interp_search :: "real \<Rightarrow> real list \<Rightarrow> nat" where
  "interp_search x xp = length (takeWhile (\<lambda>a. a \<le> x) (tl xp))"

definition np_interp :: "real \<Rightarrow> real list \<Rightarrow> real list \<Rightarrow> py_error + real" where
  "np_interp x xp fp =
     (if xp = [] then Inl (ValueError ''array of sample points is empty'')
      else if length fp \<noteq> length xp then Inl (ValueError ''fp and xp are not of the same length.'')
      else if x > last xp then Inr (last fp)
      else if x < hd xp then Inr (hd fp)
      else
        let j = interp_search x xp in
        if j = length xp - 1 then Inr (fp ! j)
        else if xp ! j = x then Inr (fp ! j)
        else
          let slope = (fp ! (j + 1) - fp ! j) / (xp ! (j + 1) - xp ! j)
          in Inr (slope * (x - xp ! j) + fp ! j))"

text \<open>\<^verbatim>\<open>np.clip(a, a_min, a_max)\<close>: \<open>minimum(maximum(a, a_min), a_max)\<close>.\<close>

definition np_clip :: "real \<Rightarrow> real \<Rightarrow> real \<Rightarrow> real" where
  "np_clip a a_min a_max = min (max a a_min) a_max"

subsection \<open>Defaults\<close>

definition DEFAULT_THRESHOLDS :: "string \<rightharpoonup> real" where
  "DEFAULT_THRESHOLDS = [''high'' \<mapsto> 70, ''med_high'' \<mapsto> 50, ''med'' \<mapsto> 35]"

definition COLUMNS :: "string list" where
  "COLUMNS =
     [''timestamp'', ''tool'', ''task_name'',
      ''duration_min'', ''frequency_per_hr'', ''posture'',
      ''load_kg'', ''lift_height'',
      ''push_pull_force_kg'', ''distance_m'', ''surface'',
      ''reps_per_min'', ''cycle_time_sec'', ''neck_shoulder_awk'',
      ''risk_score'', ''risk_tier'']"





subsection \<open>Risk model\<close>

definition tier_from_score :: "real \<Rightarrow> (string \<rightharpoonup> real) \<Rightarrow> py_error + string" where
  "tier_from_score score thres =
     (case getitem thres ''high'' of
        Inl e \<Rightarrow> Inl e
      | Inr high \<Rightarrow>
          if score \<ge> high then Inr ''High''
          else
            (case getitem thres ''med_high'' of
               Inl e \<Rightarrow> Inl e
             | Inr med_high \<Rightarrow>
                 if score \<ge> med_high then Inr ''Med-High''
                 else
                   (case getitem thres ''med'' of
                      Inl e \<Rightarrow> Inl e
                    | Inr med \<Rightarrow>
                        if score \<ge> med then Inr ''Medium'' else Inr ''Low'')))"

definition score_nzmac :: "real \<Rightarrow> real \<Rightarrow> string \<Rightarrow> string \<Rightarrow> py_error + real" where
  "score_nzmac load_kg frequency_per_hr posture lift_height =
     (case np_interp load_kg [0, 5, 10, 20, 35] [5, 15, 30, 55, 75] of
        Inl e \<Rightarrow> Inl e
      | Inr load_points \<Rightarrow>
     (case np_interp frequency_per_hr [0, 10, 30, 60] [1.0, 1.1, 1.25, 1.4] of
        Inl e \<Rightarrow> Inl e
      | Inr freq_mult \<Rightarrow>
          let posture_pen =
                dict_get [''neutral'' \<mapsto> 1.0, ''bending'' \<mapsto> 1.15,
                          ''twisting'' \<mapsto> 1.2, ''reaching'' \<mapsto> 1.1] posture 1.0;
              height_pen =
                dict_get [''floor'' \<mapsto> 1.25, ''knee'' \<mapsto> 1.15,
                          ''waist'' \<mapsto> 1.0, ''shoulder'' \<mapsto> 1.2] lift_height 1.0;
              score = load_points * freq_mult * posture_pen * height_pen
          in Inr (np_clip score 5 100)))"

definition score_nzrapp :: "real \<Rightarrow> real \<Rightarrow> string \<Rightarrow> real \<Rightarrow> py_error + real" where
  "score_nzrapp push_pull_force_kg distance_m surface frequency_per_hr =
     (case np_interp push_pull_force_kg [0, 5, 10, 20, 35] [5, 15, 28, 48, 70] of
        Inl e \<Rightarrow> Inl e
      | Inr force_points \<Rightarrow>
     (case np_interp distance_m [0, 10, 30, 60] [1.0, 1.05, 1.15, 1.25] of
        Inl e \<Rightarrow> Inl e
      | Inr dist_mult \<Rightarrow>
          let surface_pen = dict_get [''smooth'' \<mapsto> 1.0, ''rough'' \<mapsto> 1.15] surface 1.0
          in
     (case np_interp frequency_per_hr [0, 10, 30, 60] [1.0, 1.1, 1.2, 1.3] of
        Inl e \<Rightarrow> Inl e
      | Inr freq_mult \<Rightarrow>
          let score = force_points * dist_mult * surface_pen * freq_mult
          in Inr (np_clip score 5 100))))"

definition score_nzart :: "real \<Rightarrow> real \<Rightarrow> string \<Rightarrow> string \<Rightarrow> py_error + real" where
  "score_nzart reps_per_min cycle_time_sec neck_shoulder_awk posture =
     (case np_interp reps_per_min [0, 10, 20, 40, 60] [5, 15, 30, 55, 75] of
        Inl e \<Rightarrow> Inl e
      | Inr rep_points \<Rightarrow>
     (case np_interp cycle_time_sec [5, 20, 60] [1.25, 1.1, 1.0] of
        Inl e \<Rightarrow> Inl e
      | Inr cycle_adj \<Rightarrow>
          let neck_pen =
                dict_get [''none'' \<mapsto> 1.0, ''mild'' \<mapsto> 1.15, ''severe'' \<mapsto> 1.35]
                  neck_shoulder_awk 1.0;
              posture_pen =
                dict_get [''neutral'' \<mapsto> 1.0, ''bending'' \<mapsto> 1.1,
                          ''twisting'' \<mapsto> 1.15, ''reaching'' \<mapsto> 1.2] posture 1.0;
              score = rep_points * cycle_adj * neck_pen * posture_pen
          in Inr (np_clip score 5 100)))"

subsection \<open>The scorers in double arithmetic\<close>

text \<open>
  A double is a finite value, an infinity or nan. A numeric argument is a Python int, a
  float or None.
\<close>

datatype py_float = Fin real | PosInf | NegInf | NaN

datatype py_num = PyInt int | PyFloat py_float | PyNone

text \<open>
  The conversion numpy applies to the scalar \<open>x\<close> of \<^verbatim>\<open>np.interp\<close>: an int is rounded to
  a double, and raises OverflowError when it rounds to \<open>2 ^ 1024\<close> or beyond, that is from
  \<open>2 ^ 1024 - 2 ^ 970\<close> on; a float is taken as it is; None becomes nan.
\<close>

definition to_double :: "(real \<Rightarrow> real) \<Rightarrow> py_num \<Rightarrow> py_error + py_float" where
  "to_double rnd x =
     (case x of
        PyInt i \<Rightarrow>
          if \<bar>i\<bar> \<ge> 2 ^ 1024 - 2 ^ 970
          then Inl (OverflowError ''int too large to convert to float'')
          else Inr (Fin (rnd (of_int i)))
      | PyFloat v \<Rightarrow> Inr v
      | PyNone \<Rightarrow> Inr NaN)"

text \<open>
  Multiplication of doubles: nan propagates, an infinity times zero is nan, and a finite
  product is rounded. Every product the scorers form is of table values and multipliers
  and stays far below the largest double, so a finite product never rounds to an infinity.
\<close>

fun fmul :: "(real \<Rightarrow> real) \<Rightarrow> py_float \<Rightarrow> py_float \<Rightarrow> py_float" where
  "fmul rnd NaN b = NaN"
| "fmul rnd a NaN = NaN"
| "fmul rnd (Fin a) (Fin b) = Fin (rnd (a * b))"
| "fmul rnd (Fin a) PosInf = (if a = 0 then NaN else if 0 < a then PosInf else NegInf)"
| "fmul rnd (Fin a) NegInf = (if a = 0 then NaN else if 0 < a then NegInf else PosInf)"
| "fmul rnd PosInf (Fin b) = (if b = 0 then NaN else if 0 < b then PosInf else NegInf)"
| "fmul rnd NegInf (Fin b) = (if b = 0 then NaN else if 0 < b then NegInf else PosInf)"
| "fmul rnd PosInf PosInf = PosInf"
| "fmul rnd PosInf NegInf = NegInf"
| "fmul rnd NegInf PosInf = NegInf"
| "fmul rnd NegInf NegInf = PosInf"

text \<open>
  \<^verbatim>\<open>np.interp\<close> on a double: after the two ValueError checks a nan \<open>x\<close> is returned as it
  is, \<open>x\<close> beyond the last sample point (also \<open>+inf\<close>) gives the last value and \<open>x\<close> before
  the first (also \<open>-inf\<close>) the first; otherwise, with \<open>j\<close> from the search, the result is
  \<open>fp[j]\<close> at the last index or on a sample point and, in between,
  \<open>slope * (x - xp[j]) + fp[j]\<close> with \<open>slope = (fp[j+1] - fp[j]) / (xp[j+1] - xp[j])\<close>,
  each operation rounded.
\<close>

definition np_interp_fl :: "(real \<Rightarrow> real) \<Rightarrow> py_float \<Rightarrow> real list \<Rightarrow> real list \<Rightarrow> py_error + py_float" where
  "np_interp_fl rnd x xp fp =
     (if xp = [] then Inl (ValueError ''array of sample points is empty'')
      else if length fp \<noteq> length xp then Inl (ValueError ''fp and xp are not of the same length.'')
      else
        (case x of
           NaN \<Rightarrow> Inr NaN
         | PosInf \<Rightarrow> Inr (Fin (last fp))
         | NegInf \<Rightarrow> Inr (Fin (hd fp))
         | Fin v \<Rightarrow>
             if v > last xp then Inr (Fin (last fp))
             else if v < hd xp then Inr (Fin (hd fp))
             else
               let j = interp_search v xp in
               if j = length xp - 1 then Inr (Fin (fp ! j))
               else if xp ! j = v then Inr (Fin (fp ! j))
               else
                 let slope = rnd (rnd (fp ! (j + 1) - fp ! j) / rnd (xp ! (j + 1) - xp ! j))
                 in Inr (Fin (rnd (rnd (slope * rnd (v - xp ! j)) + fp ! j)))))"

text \<open>\<^verbatim>\<open>np.clip\<close> on a double: nan stays nan.\<close>

definition np_clip_fl :: "py_float \<Rightarrow> real \<Rightarrow> real \<Rightarrow> py_float" where
  "np_clip_fl a a_min a_max =
     (case a of
        NaN \<Rightarrow> NaN
      | PosInf \<Rightarrow> Fin a_max
      | NegInf \<Rightarrow> Fin (min a_min a_max)
      | Fin v \<Rightarrow> Fin (min (max v a_min) a_max))"

text \<open>
  The three scorers. The integer literals of the tables are doubles as they stand; the
  decimal literals are rounded. The product is formed from left to right.
\<close>

definition score_nzmac_fl ::
  "(real \<Rightarrow> real) \<Rightarrow> py_num \<Rightarrow> py_num \<Rightarrow> string \<Rightarrow> string \<Rightarrow> py_error + py_float" where
  "score_nzmac_fl rnd load_kg frequency_per_hr posture lift_height =
     (case to_double rnd load_kg of Inl e \<Rightarrow> Inl e | Inr x \<Rightarrow>
     (case np_interp_fl rnd x [0, 5, 10, 20, 35] [5, 15, 30, 55, 75] of
        Inl e \<Rightarrow> Inl e
      | Inr load_points \<Rightarrow>
     (case to_double rnd frequency_per_hr of Inl e \<Rightarrow> Inl e | Inr x \<Rightarrow>
     (case np_interp_fl rnd x [0, 10, 30, 60] (map rnd [1.0, 1.1, 1.25, 1.4]) of
        Inl e \<Rightarrow> Inl e
      | Inr freq_mult \<Rightarrow>
          let posture_pen =
                Fin (rnd (dict_get [''neutral'' \<mapsto> 1.0, ''bending'' \<mapsto> 1.15,
                                    ''twisting'' \<mapsto> 1.2, ''reaching'' \<mapsto> 1.1] posture 1.0));
              height_pen =
                Fin (rnd (dict_get [''floor'' \<mapsto> 1.25, ''knee'' \<mapsto> 1.15,
                                    ''waist'' \<mapsto> 1.0, ''shoulder'' \<mapsto> 1.2] lift_height 1.0));
              score = fmul rnd (fmul rnd (fmul rnd load_points freq_mult) posture_pen) height_pen
          in Inr (np_clip_fl score 5 100)))))"

definition score_nzrapp_fl ::
  "(real \<Rightarrow> real) \<Rightarrow> py_num \<Rightarrow> py_num \<Rightarrow> string \<Rightarrow> py_num \<Rightarrow> py_error + py_float" where
  "score_nzrapp_fl rnd push_pull_force_kg distance_m surface frequency_per_hr =
     (case to_double rnd push_pull_force_kg of Inl e \<Rightarrow> Inl e | Inr x \<Rightarrow>
     (case np_interp_fl rnd x [0, 5, 10, 20, 35] [5, 15, 28, 48, 70] of
        Inl e \<Rightarrow> Inl e
      | Inr force_points \<Rightarrow>
     (case to_double rnd distance_m of Inl e \<Rightarrow> Inl e | Inr x \<Rightarrow>
     (case np_interp_fl rnd x [0, 10, 30, 60] (map rnd [1.0, 1.05, 1.15, 1.25]) of
        Inl e \<Rightarrow> Inl e
      | Inr dist_mult \<Rightarrow>
          let surface_pen =
                Fin (rnd (dict_get [''smooth'' \<mapsto> 1.0, ''rough'' \<mapsto> 1.15] surface 1.0))
          in
     (case to_double rnd frequency_per_hr of Inl e \<Rightarrow> Inl e | Inr x \<Rightarrow>
     (case np_interp_fl rnd x [0, 10, 30, 60] (map rnd [1.0, 1.1, 1.2, 1.3]) of
        Inl e \<Rightarrow> Inl e
      | Inr freq_mult \<Rightarrow>
          let score = fmul rnd (fmul rnd (fmul rnd force_points dist_mult) surface_pen) freq_mult
          in Inr (np_clip_fl score 5 100)))))))"

definition score_nzart_fl ::
  "(real \<Rightarrow> real) \<Rightarrow> py_num \<Rightarrow> py_num \<Rightarrow> string \<Rightarrow> string \<Rightarrow> py_error + py_float" where
  "score_nzart_fl rnd reps_per_min cycle_time_sec neck_shoulder_awk posture =
     (case to_double rnd reps_per_min of Inl e \<Rightarrow> Inl e | Inr x \<Rightarrow>
     (case np_interp_fl rnd x [0, 10, 20, 40, 60] [5, 15, 30, 55, 75] of
        Inl e \<Rightarrow> Inl e
      | Inr rep_points \<Rightarrow>
     (case to_double rnd cycle_time_sec of Inl e \<Rightarrow> Inl e | Inr x \<Rightarrow>
     (case np_interp_fl rnd x [5, 20, 60] (map rnd [1.25, 1.1, 1.0]) of
        Inl e \<Rightarrow> Inl e
      | Inr cycle_adj \<Rightarrow>
          let neck_pen =
                Fin (rnd (dict_get [''none'' \<mapsto> 1.0, ''mild'' \<mapsto> 1.15, ''severe'' \<mapsto> 1.35]
                            neck_shoulder_awk 1.0));
              posture_pen =
                Fin (rnd (dict_get [''neutral'' \<mapsto> 1.0, ''bending'' \<mapsto> 1.1,
                                    ''twisting'' \<mapsto> 1.15, ''reaching'' \<mapsto> 1.2] posture 1.0));
              score = fmul rnd (fmul rnd (fmul rnd rep_points cycle_adj) neck_pen) posture_pen
          in Inr (np_clip_fl score 5 100)))))"

text \<open>
  \<^verbatim>\<open>recommendations\<close>: \<^verbatim>\<open>base.insert(0, x)\<close> is \<open>x # base\<close>, \<^verbatim>\<open>base.append(y)\<close> is
  \<open>base @ [y]\<close>, and \<^verbatim>\<open>base[:4]\<close> is \<open>take 4 base\<close>. The three tests on \<open>tool\<close> are
  separate \<^verbatim>\<open>if\<close> statements, run one after the other.
\<close>

definition rec_rotate :: string where
  "rec_rotate = ''Rotate tasks to reduce exposure time.''"

definition rec_breaks :: string where
  "rec_breaks = ''Provide micro-breaks and encourage neutral postures.''"

definition rec_train :: string where
  "rec_train = ''Train staff on safe techniques and early symptom reporting.''"

definition rec_engineering :: string where
  "rec_engineering = ''Consider engineering controls (lifting aids, height-adjustable benches).''"

definition rec_nzmac :: string where
  "rec_nzmac = ''Reduce load weight or split lifts into smaller units.''"

definition rec_nzrapp :: string where
  "rec_nzrapp = ''Reduce initial push/pull force and improve wheel/surface condition.''"

definition rec_nzart :: string where
  "rec_nzart = ''Redesign tasks to lower repetition rate or awkward neck/shoulder posture.''"

definition recommendations :: "string \<Rightarrow> string \<Rightarrow> string list" where
  "recommendations tier tool =
     (let base = [rec_rotate, rec_breaks, rec_train];
          base =
            (if tier \<in> set [''Med-High'', ''High''] then
               let base = rec_engineering # base;
                   base = (if tool = ''NZMAC'' then base @ [rec_nzmac] else base);
                   base = (if tool = ''NZRAPP'' then base @ [rec_nzrapp] else base);
                   base = (if tool = ''NZART'' then base @ [rec_nzart] else base)
               in base
             else base)
      in take 4 base)"

subsection \<open>Import/Export page: the import branch\<close>

text \<open>
  A \<^verbatim>\<open>DataFrame\<close> is its number of rows and its columns in order, each a name with one
  cell per row. The session holds the record store \<open>df\<close> and the thresholds.
  \<^verbatim>\<open>pd.read_csv\<close> is a parameter \<open>read_csv\<close> of the model: \<open>Inl e\<close> when it raises.
\<close>

datatype cell = NA | Text string | Number real

record dataframe =
  nrows :: nat
  cols :: "(string \<times> cell list) list"

record session_state =
  df :: dataframe
  thresholds :: "string \<rightharpoonup> real"

datatype message = Success_msg string | Error_msg py_error

text \<open>\<^verbatim>\<open>new_df.columns\<close>, \<^verbatim>\<open>new_df[c] = None\<close> and \<^verbatim>\<open>new_df[COLUMNS]\<close> (KeyError on a missing name).\<close>

definition df_columns :: "dataframe \<Rightarrow> string list" where
  "df_columns d = map fst (cols d)"

definition setitem_none :: "dataframe \<Rightarrow> string \<Rightarrow> dataframe" where
  "setitem_none d c =
     (if c \<in> set (df_columns d)
      then d\<lparr>cols := map (\<lambda>(k, v). if k = c then (k, replicate (nrows d) NA) else (k, v)) (cols d)\<rparr>
      else d\<lparr>cols := cols d @ [(c, replicate (nrows d) NA)]\<rparr>)"

text \<open>The loop \<^verbatim>\<open>for c in COLUMNS: if c not in new_df.columns: new_df[c] = None\<close>.\<close>

fun align_columns :: "dataframe \<Rightarrow> string list \<Rightarrow> dataframe" where
  "align_columns new_df [] = new_df"
| "align_columns new_df (c # cs) =
     align_columns (if c \<notin> set (df_columns new_df) then setitem_none new_df c else new_df) cs"

fun select_cols :: "(string \<times> cell list) list \<Rightarrow> string list \<Rightarrow> py_error + (string \<times> cell list) list" where
  "select_cols cs [] = Inr []"
| "select_cols cs (k # ks) =
     (case map_of cs k of
        None \<Rightarrow> Inl (KeyError k)
      | Some v \<Rightarrow> (case select_cols cs ks of Inl e \<Rightarrow> Inl e | Inr r \<Rightarrow> Inr ((k, v) # r)))"

definition getitem_columns :: "dataframe \<Rightarrow> string list \<Rightarrow> py_error + dataframe" where
  "getitem_columns d ks =
     (case select_cols (cols d) ks of Inl e \<Rightarrow> Inl e | Inr r \<Rightarrow> Inr (d\<lparr>cols := r\<rparr>))"

text \<open>
  The body of the \<^verbatim>\<open>try\<close>: the assignment to \<^verbatim>\<open>st.session_state.df\<close> is its last
  effect on the session. \<open>import_page\<close> is the whole branch: nothing happens without an
  upload, and \<^verbatim>\<open>except Exception\<close> reports the error.
\<close>

definition import_try :: "('u \<Rightarrow> py_error + dataframe) \<Rightarrow> 'u \<Rightarrow> session_state \<Rightarrow> py_error + session_state" where
  "import_try read_csv up st =
     (case read_csv up of
        Inl e \<Rightarrow> Inl e
      | Inr new_df \<Rightarrow>
          let new_df = align_columns new_df COLUMNS in
          (case getitem_columns new_df COLUMNS of
             Inl e \<Rightarrow> Inl e
           | Inr sel \<Rightarrow> Inr (st\<lparr>df := sel\<rparr>)))"

definition import_page :: "('u \<Rightarrow> py_error + dataframe) \<Rightarrow> 'u option \<Rightarrow> session_state \<Rightarrow> session_state \<times> message option" where
  "import_page read_csv up st =
     (case up of
        None \<Rightarrow> (st, None)
      | Some f \<Rightarrow>
          (case import_try read_csv f st of
             Inl e \<Rightarrow> (st, Some (Error_msg e))
           | Inr st' \<Rightarrow> (st', Some (Success_msg ''Data replaced.''))))"

subsection \<open>Reference definitions for the stated properties\<close>

text \<open>
  The normalised table: the fixed columns in their fixed order, each taken from the parsed
  table when it is there and filled with nulls otherwise; other columns are dropped.
\<close>

definition normalized :: "dataframe \<Rightarrow> dataframe" where
  "normalized t =
     \<lparr>nrows = nrows t,
      cols = map (\<lambda>c. (c, case map_of (cols t) c of None \<Rightarrow> replicate (nrows t) NA | Some v \<Rightarrow> v)) COLUMNS\<rparr>"

text \<open>The order of the tiers: \<open>Low < Medium < Med-High < High\<close>.\<close>

definition tier_rank :: "string \<Rightarrow> nat option" where
  "tier_rank t =
     (if t = ''Low'' then Some 0
      else if t = ''Medium'' then Some 1
      else if t = ''Med-High'' then Some 2
      else if t = ''High'' then Some 3
      else None)"

text \<open>
  Piecewise-linear interpolation over a table of (breakpoint, value) pairs with increasing
  breakpoints: the first value before the first breakpoint, the last value after the last,
  and the straight line between two neighbouring breakpoints.
\<close>

fun piecewise_linear :: "(real \<times> real) list \<Rightarrow> real \<Rightarrow> real" where
  "piecewise_linear [] x = 0"
| "piecewise_linear [(x0, y0)] x = y0"
| "piecewise_linear ((x0, y0) # (x1, y1) # ps) x =
     (if x \<le> x0 then y0
      else if x \<le> x1 then y0 + (y1 - y0) * (x - x0) / (x1 - x0)
      else piecewise_linear ((x1, y1) # ps) x)"

definition clamp :: "real \<Rightarrow> real \<Rightarrow> real \<Rightarrow> real" where
  "clamp v lo hi = (if v < lo then lo else if hi < v then hi else v)"

definition lifting_posture_mult :: "string \<Rightarrow> real" where
  "lifting_posture_mult p =
     (if p = ''neutral'' then 1.0 else if p = ''bending'' then 1.15
      else if p = ''twisting'' then 1.2 else if p = ''reaching'' then 1.1 else 1.0)"

definition lifting_height_mult :: "string \<Rightarrow> real" where
  "lifting_height_mult h =
     (if h = ''floor'' then 1.25 else if h = ''knee'' then 1.15
      else if h = ''waist'' then 1.0 else if h = ''shoulder'' then 1.2 else 1.0)"




text \<open>
  Piecewise-linear interpolation in double arithmetic: the value of a breakpoint on it,
  the first value before the first breakpoint and the last value after the last (also at
  the infinities), and between two neighbouring breakpoints the line through them,
  computed as \<open>slope * (x - x0) + y0\<close> with every operation rounded.
\<close>

fun piecewise_linear_fl :: "(real \<Rightarrow> real) \<Rightarrow> (real \<times> real) list \<Rightarrow> real \<Rightarrow> real" where
  "piecewise_linear_fl rnd [] x = 0"
| "piecewise_linear_fl rnd [(x0, y0)] x = y0"
| "piecewise_linear_fl rnd ((x0, y0) # (x1, y1) # ps) x =
     (if x \<le> x0 then y0
      else if x < x1 then rnd (rnd (rnd (rnd (y1 - y0) / rnd (x1 - x0)) * rnd (x - x0)) + y0)
      else if x = x1 then y1
      else piecewise_linear_fl rnd ((x1, y1) # ps) x)"

definition interpolate_fl :: "(real \<Rightarrow> real) \<Rightarrow> (real \<times> real) list \<Rightarrow> py_float \<Rightarrow> real" where
  "interpolate_fl rnd tbl x =
     (case x of
        Fin v \<Rightarrow> piecewise_linear_fl rnd tbl v
      | PosInf \<Rightarrow> snd (last tbl)
      | NegInf \<Rightarrow> snd (hd tbl)
      | NaN \<Rightarrow> 0)"

text \<open>The tool-specific suggestions, one per tool.\<close>

definition tool_specific :: "string list" where
  "tool_specific = [rec_nzmac, rec_nzrapp, rec_nzart]"


section \<open>Properties\<close>

subsection \<open>Tier classifier\<close>

lemma tier_from_score_chain:
  assumes "thres ''high'' = Some h" "thres ''med_high'' = Some mh" "thres ''med'' = Some m"
  shows "tier_from_score s thres =
     Inr (if s \<ge> h then ''High'' else if s \<ge> mh then ''Med-High''
          else if s \<ge> m then ''Medium'' else ''Low'')"
  using assms by (simp add: tier_from_score_def getitem_def)

lemma default_lookup:
  "DEFAULT_THRESHOLDS ''high'' = Some 70"
  "DEFAULT_THRESHOLDS ''med_high'' = Some 50"
  "DEFAULT_THRESHOLDS ''med'' = Some 35"
  by (simp_all add: DEFAULT_THRESHOLDS_def)

text \<open>
  C2. For every score and every threshold set with \<open>med \<le> med_high \<le> high\<close>, the
  classifier returns High when \<open>score \<ge> high\<close>, else Med-High when \<open>score \<ge> med_high\<close>,
  else Medium when \<open>score \<ge> med\<close>, else Low; so each tier is exactly one interval of
  scores, closed at its lower end. With the default thresholds 70, 50, 35: score 70 is
  High, 69.9 is Med-High, 50 is Med-High, 35 is Medium and 34.9 is Low.
\<close>

theorem tier_from_score_rule:
  assumes "thres ''high'' = Some h" "thres ''med_high'' = Some mh" "thres ''med'' = Some m"
      and "m \<le> mh" "mh \<le> h"
  shows "tier_from_score s thres =
           Inr (if s \<ge> h then ''High'' else if s \<ge> mh then ''Med-High''
                else if s \<ge> m then ''Medium'' else ''Low'')
       \<and> (tier_from_score s thres = Inr ''High'' \<longleftrightarrow> h \<le> s)
       \<and> (tier_from_score s thres = Inr ''Med-High'' \<longleftrightarrow> mh \<le> s \<and> s < h)
       \<and> (tier_from_score s thres = Inr ''Medium'' \<longleftrightarrow> m \<le> s \<and> s < mh)
       \<and> (tier_from_score s thres = Inr ''Low'' \<longleftrightarrow> s < m)
       \<and> tier_from_score 70 DEFAULT_THRESHOLDS = Inr ''High''
       \<and> tier_from_score 69.9 DEFAULT_THRESHOLDS = Inr ''Med-High''
       \<and> tier_from_score 50 DEFAULT_THRESHOLDS = Inr ''Med-High''
       \<and> tier_from_score 35 DEFAULT_THRESHOLDS = Inr ''Medium''
       \<and> tier_from_score 34.9 DEFAULT_THRESHOLDS = Inr ''Low''"
  using assms(4,5)
  by (auto simp add: tier_from_score_chain[OF assms(1-3)] tier_from_score_chain[OF default_lookup])

theorem tier_from_score_rule_witness:
  "DEFAULT_THRESHOLDS ''high'' = Some 70 \<and> DEFAULT_THRESHOLDS ''med_high'' = Some 50
   \<and> DEFAULT_THRESHOLDS ''med'' = Some 35 \<and> (35::real) \<le> 50 \<and> (50::real) \<le> 70
   \<and> tier_from_score 42 DEFAULT_THRESHOLDS = Inr ''Medium''
   \<and> tier_from_score 34.9 DEFAULT_THRESHOLDS = Inr ''Low''"
  using tier_from_score_rule[OF default_lookup, of 42] default_lookup
  by simp

text \<open>
  C7. For every threshold set and every two scores \<open>s1 \<le> s2\<close>, both classifications
  return, and the tier of \<open>s1\<close> is at most the tier of \<open>s2\<close> in the order
  \<open>Low < Medium < Med-High < High\<close>.
\<close>

theorem tier_from_score_monotone:
  assumes "thres ''high'' = Some h" "thres ''med_high'' = Some mh" "thres ''med'' = Some m"
      and "s1 \<le> s2"
  shows "\<exists>t1 t2 r1 r2.
           tier_from_score s1 thres = Inr t1 \<and> tier_from_score s2 thres = Inr t2
           \<and> tier_rank t1 = Some r1 \<and> tier_rank t2 = Some r2 \<and> r1 \<le> r2"
  using assms(4)
  by (simp add: tier_from_score_chain[OF assms(1-3)] tier_rank_def)

theorem tier_from_score_monotone_witness:
  "(49.9::real) \<le> 50
   \<and> tier_from_score 49.9 DEFAULT_THRESHOLDS = Inr ''Medium''
   \<and> tier_from_score 50 DEFAULT_THRESHOLDS = Inr ''Med-High''
   \<and> tier_rank ''Medium'' = Some 1 \<and> tier_rank ''Med-High'' = Some 2
   \<and> (\<exists>t1 t2 r1 r2.
           tier_from_score 49.9 DEFAULT_THRESHOLDS = Inr t1
           \<and> tier_from_score 50 DEFAULT_THRESHOLDS = Inr t2
           \<and> tier_rank t1 = Some r1 \<and> tier_rank t2 = Some r2 \<and> r1 \<le> r2)"
proof -
  have le: "(49.9::real) \<le> 50" by simp
  have "tier_from_score 49.9 DEFAULT_THRESHOLDS = Inr ''Medium''"
       "tier_from_score 50 DEFAULT_THRESHOLDS = Inr ''Med-High''"
    by (simp_all add: tier_from_score_chain[OF default_lookup])
  moreover have "tier_rank ''Medium'' = Some 1" "tier_rank ''Med-High'' = Some 2"
    by (simp_all add: tier_rank_def)
  ultimately show ?thesis
    using tier_from_score_monotone[OF default_lookup le] le by blast
qed

text \<open>
  C10. The classifier is total on threshold triples: for every score and every three
  threshold values, ordered or not, it raises nothing and returns one of the four labels
  Low, Medium, Med-High, High, chosen by the first test that succeeds from high to low.
\<close>

theorem tier_from_score_total:
  assumes "thres ''high'' = Some h" "thres ''med_high'' = Some mh" "thres ''med'' = Some m"
  shows "(tier_from_score s thres = Inr ''Low'' \<or> tier_from_score s thres = Inr ''Medium''
          \<or> tier_from_score s thres = Inr ''Med-High'' \<or> tier_from_score s thres = Inr ''High'')
       \<and> tier_from_score s thres =
           Inr (if s \<ge> h then ''High'' else if s \<ge> mh then ''Med-High''
                else if s \<ge> m then ''Medium'' else ''Low'')"
  by (simp add: tier_from_score_chain[OF assms])

theorem tier_from_score_total_witness:
  "[''high'' \<mapsto> (10::real), ''med_high'' \<mapsto> 90, ''med'' \<mapsto> 60] ''high'' = Some 10
   \<and> [''high'' \<mapsto> (10::real), ''med_high'' \<mapsto> 90, ''med'' \<mapsto> 60] ''med_high'' = Some 90
   \<and> [''high'' \<mapsto> (10::real), ''med_high'' \<mapsto> 90, ''med'' \<mapsto> 60] ''med'' = Some 60
   \<and> tier_from_score 5 [''high'' \<mapsto> 10, ''med_high'' \<mapsto> 90, ''med'' \<mapsto> 60] = Inr ''Low''
   \<and> tier_from_score 75 [''high'' \<mapsto> 10, ''med_high'' \<mapsto> 90, ''med'' \<mapsto> 60] = Inr ''High''"
  using tier_from_score_total[of "[''high'' \<mapsto> 10, ''med_high'' \<mapsto> 90, ''med'' \<mapsto> 60]" 10 90 60 5]
        tier_from_score_total[of "[''high'' \<mapsto> 10, ''med_high'' \<mapsto> 90, ''med'' \<mapsto> 60]" 10 90 60 75]
  by simp

subsection \<open>Scorers\<close>


lemma np_clip_bounds: "lo \<le> hi \<Longrightarrow> lo \<le> np_clip a lo hi \<and> np_clip a lo hi \<le> hi"
  by (simp add: np_clip_def)

lemma np_clip_clamp: "lo \<le> hi \<Longrightarrow> np_clip a lo hi = clamp a lo hi"
  by (simp add: np_clip_def clamp_def)

text \<open>
  On every table with strictly increasing sample points, \<open>np_interp\<close> is the
  piecewise-linear interpolation with flat extrapolation.
\<close>

lemma np_interp_single: "np_interp x [x0] [y0] = Inr y0"
  by (simp add: np_interp_def interp_search_def)

lemma np_interp_shift:
  assumes "x1 \<le> x" "x0 < x1" "length ys = length xs"
  shows "np_interp x (x0 # x1 # xs) (y0 # y1 # ys) = np_interp x (x1 # xs) (y1 # ys)"
  using assms by (simp add: np_interp_def interp_search_def Let_def)

lemma np_interp_first_segment:
  assumes "sorted_wrt (<) (x0 # x1 # xs)" "length ys = length xs" "x < x1"
  shows "np_interp x (x0 # x1 # xs) (y0 # y1 # ys) =
           Inr (if x \<le> x0 then y0 else y0 + (y1 - y0) * (x - x0) / (x1 - x0))"
proof -
  have lastge: "x1 \<le> last (x1 # xs)"
    using assms(1) by (cases xs rule: rev_cases) auto
  have s: "interp_search x (x0 # x1 # xs) = 0"
    using assms(3) by (simp add: interp_search_def)
  show ?thesis
    using assms lastge by (auto simp add: np_interp_def s Let_def)
qed

lemma np_interp_at_head:
  assumes "sorted_wrt (<) (x1 # xs)" "length ys = length xs"
  shows "np_interp x1 (x1 # xs) (y1 # ys) = Inr y1"
proof (cases xs)
  case Nil
  then show ?thesis using assms by (simp add: np_interp_single)
next
  case (Cons x2 xs')
  then obtain y2 ys' where ys: "ys = y2 # ys'" "length ys' = length xs'"
    using assms(2) by (cases ys) auto
  show ?thesis
    using np_interp_first_segment[of x1 x2 xs' ys' x1 y1 y2] assms(1) ys
    unfolding Cons ys by simp
qed

lemma np_interp_piecewise_linear:
  assumes "sorted_wrt (<) xp" "xp \<noteq> []" "length fp = length xp"
  shows "np_interp x xp fp = Inr (piecewise_linear (zip xp fp) x)"
  using assms
proof (induction "zip xp fp" x arbitrary: xp fp rule: piecewise_linear.induct)
  case (1 x)
  then show ?case by (cases xp; cases fp) auto
next
  case (2 x0 y0 x)
  then have "xp = [x0] \<and> fp = [y0]"
    by (cases xp; cases fp) auto
  then show ?case by (simp add: np_interp_single)
next
  case (3 x0 y0 x1 y1 ps x)
  obtain xs ys where xp: "xp = x0 # x1 # xs" and fp: "fp = y0 # y1 # ys"
      and ps: "ps = zip xs ys" and len: "length ys = length xs"
  proof -
    obtain a xp' b fp' where 1: "xp = a # xp'" "fp = b # fp'"
      using 3(2) by (cases xp; cases fp) auto
    then obtain a' xs b' ys where 2: "xp' = a' # xs" "fp' = b' # ys"
      using 3(2) by (cases xp'; cases fp') auto
    show thesis
      using that[of xs ys] 1 2 3(2,5) by auto
  qed
  have lt: "x0 < x1" and srt: "sorted_wrt (<) (x1 # xs)"
    using 3(3) xp by auto
  show ?case
  proof (cases "x < x1")
    case True
    then show ?thesis
      using np_interp_first_segment[of x0 x1 xs ys x y0 y1] 3(3) len
      unfolding xp fp by auto
  next
    case False
    show ?thesis
    proof (cases "x = x1")
      case True
      have "np_interp x1 (x0 # x1 # xs) (y0 # y1 # ys) = Inr y1"
        using np_interp_shift[of x1 x1 x0 ys xs y0 y1] lt len np_interp_at_head[OF srt len]
        by simp
      then show ?thesis
        unfolding xp fp using True lt by simp
    next
      case neq: False
      with False have gt: "x1 < x" by simp
      have "np_interp x (x1 # xs) (y1 # ys) = Inr (piecewise_linear (zip (x1 # xs) (y1 # ys)) x)"
        using 3(1)[of "x1 # xs" "y1 # ys"] srt len lt gt ps by simp
      then show ?thesis
        unfolding xp fp using gt lt len np_interp_shift[of x1 x x0 ys xs y0 y1]
        by simp
    qed
  qed
qed

lemma posture_pen_lifting:
  "dict_get [''neutral'' \<mapsto> 1.0, ''bending'' \<mapsto> 1.15,
             ''twisting'' \<mapsto> 1.2, ''reaching'' \<mapsto> 1.1] p (1.0::real) = lifting_posture_mult p"
  by (simp add: dict_get_def lifting_posture_mult_def)

lemma height_pen_lifting:
  "dict_get [''floor'' \<mapsto> 1.25, ''knee'' \<mapsto> 1.15,
             ''waist'' \<mapsto> 1.0, ''shoulder'' \<mapsto> 1.2] h (1.0::real) = lifting_height_mult h"
  by (simp add: dict_get_def lifting_height_mult_def)

text \<open>The exact model is the double model without rounding, on finite floats.\<close>

lemma np_interp_fl_exact:
  "np_interp_fl id (Fin x) xp fp = map_sum id Fin (np_interp x xp fp)"
  by (simp add: np_interp_fl_def np_interp_def Let_def)

lemma np_clip_fl_exact: "np_clip_fl (Fin v) lo hi = Fin (np_clip v lo hi)"
  by (simp add: np_clip_fl_def np_clip_def)

lemma score_nzmac_fl_exact:
  "score_nzmac_fl id (PyFloat (Fin l)) (PyFloat (Fin f)) p h = map_sum id Fin (score_nzmac l f p h)"
  by (simp add: score_nzmac_fl_def score_nzmac_def to_double_def np_interp_fl_exact
        np_clip_fl_exact Let_def split: sum.splits)

lemma score_nzrapp_fl_exact:
  "score_nzrapp_fl id (PyFloat (Fin a)) (PyFloat (Fin d)) s (PyFloat (Fin f)) =
     map_sum id Fin (score_nzrapp a d s f)"
  by (simp add: score_nzrapp_fl_def score_nzrapp_def to_double_def np_interp_fl_exact
        np_clip_fl_exact Let_def split: sum.splits)

lemma score_nzart_fl_exact:
  "score_nzart_fl id (PyFloat (Fin r)) (PyFloat (Fin c)) n p = map_sum id Fin (score_nzart r c n p)"
  by (simp add: score_nzart_fl_def score_nzart_def to_double_def np_interp_fl_exact
        np_clip_fl_exact Let_def split: sum.splits)



lemma interp_fl_load:
  "x \<noteq> NaN \<Longrightarrow>
   np_interp_fl rnd x [0, 5, 10, 20, 35] [5, 15, 30, 55, 75] =
     Inr (Fin (interpolate_fl rnd (zip [0, 5, 10, 20, 35] [5, 15, 30, 55, 75]) x))"
  by (cases x) (simp_all add: np_interp_fl_def interpolate_fl_def interp_search_def Let_def)

lemma interp_fl_freq_lifting:
  "x \<noteq> NaN \<Longrightarrow>
   np_interp_fl rnd x [0, 10, 30, 60] (map rnd [1.0, 1.1, 1.25, 1.4]) =
     Inr (Fin (interpolate_fl rnd (zip [0, 10, 30, 60] (map rnd [1.0, 1.1, 1.25, 1.4])) x))"
  by (cases x) (simp_all add: np_interp_fl_def interpolate_fl_def interp_search_def Let_def)

lemma piecewise_linear_fl_exact:
  "piecewise_linear_fl id tbl x = piecewise_linear tbl x"
  by (induction tbl x rule: piecewise_linear.induct) (auto simp add: field_simps)

lemma clip_fl_clamp: "np_clip_fl (Fin v) 5 100 = Fin (clamp v 5 100)"
  by (simp add: np_clip_fl_def clamp_def)

text \<open>
  C1, as stated: for every input the lifting scorer returns the clamped product. It is
  false: for the int \<open>10 ^ 400\<close> as load the scorer raises OverflowError and returns
  nothing, and for a nan load it returns nan.
\<close>

theorem score_nzmac_formula_counterexample:
  "score_nzmac_fl id (PyInt (10 ^ 400)) (PyInt 30) ''bending'' ''knee'' =
     Inl (OverflowError ''int too large to convert to float'')
   \<and> score_nzmac_fl id (PyFloat NaN) (PyInt 30) ''bending'' ''knee'' = Inr NaN"
  by (simp add: score_nzmac_fl_def to_double_def np_interp_fl_def interp_search_def
        np_clip_fl_def Let_def)

text \<open>
  C1, amended: for every input whose load and frequency are numbers a double can hold
  (they convert to doubles other than nan) and for every posture and lift height, the
  lifting scorer returns \<open>clamp (base * freq_mult * posture_mult * height_mult) 5 100\<close>
  computed in double arithmetic, the product formed from left to right and each product
  rounded, where \<open>base\<close> is the piecewise-linear interpolation of the load over
  \<open>(0,5,10,20,35) \<rightarrow> (5,15,30,55,75)\<close>, flat outside the table, \<open>freq_mult\<close> that of the
  frequency over \<open>(0,10,30,60) \<rightarrow> (1.0,1.1,1.25,1.4)\<close>, \<open>posture_mult\<close> is neutral 1.0,
  bending 1.15, twisting 1.2, reaching 1.1 (1.0 otherwise), and \<open>height_mult\<close> is floor
  1.25, knee 1.15, waist 1.0, shoulder 1.2 (1.0 otherwise). Where nothing is rounded,
  this is the clamped product of the exact interpolations and multipliers.
\<close>

theorem score_nzmac_rounded_formula:
  assumes "to_double rnd load_kg = Inr l" "l \<noteq> NaN"
      and "to_double rnd frequency_per_hr = Inr f" "f \<noteq> NaN"
  shows "score_nzmac_fl rnd load_kg frequency_per_hr posture lift_height =
           Inr (Fin (clamp
             (rnd (rnd (rnd (interpolate_fl rnd (zip [0, 5, 10, 20, 35] [5, 15, 30, 55, 75]) l
                             * interpolate_fl rnd (zip [0, 10, 30, 60] (map rnd [1.0, 1.1, 1.25, 1.4])) f)
                        * rnd (lifting_posture_mult posture))
                   * rnd (lifting_height_mult lift_height)))
             5 100))
       \<and> (rnd = id \<and> l = Fin x \<and> f = Fin y \<longrightarrow>
            score_nzmac_fl rnd load_kg frequency_per_hr posture lift_height =
              Inr (Fin (clamp
                (piecewise_linear [(0, 5), (5, 15), (10, 30), (20, 55), (35, 75)] x
                 * piecewise_linear [(0, 1.0), (10, 1.1), (30, 1.25), (60, 1.4)] y
                 * lifting_posture_mult posture
                 * lifting_height_mult lift_height)
                5 100)))"
proof -
  have main: "score_nzmac_fl rnd load_kg frequency_per_hr posture lift_height =
           Inr (Fin (clamp
             (rnd (rnd (rnd (interpolate_fl rnd (zip [0, 5, 10, 20, 35] [5, 15, 30, 55, 75]) l
                             * interpolate_fl rnd (zip [0, 10, 30, 60] (map rnd [1.0, 1.1, 1.25, 1.4])) f)
                        * rnd (lifting_posture_mult posture))
                   * rnd (lifting_height_mult lift_height)))
             5 100))"
    unfolding score_nzmac_fl_def assms(1,3) posture_pen_lifting height_pen_lifting
    using interp_fl_load[OF assms(2), of rnd] interp_fl_freq_lifting[OF assms(4), of rnd]
    by (simp add: Let_def clip_fl_clamp)
  have exact: "interpolate_fl id tbl (Fin v) = piecewise_linear tbl v" for tbl v
    by (simp add: interpolate_fl_def piecewise_linear_fl_exact)
  show ?thesis
    using main by (auto simp add: exact simp del: piecewise_linear.simps)
qed

theorem score_nzmac_rounded_formula_witness:
  "to_double id (PyInt 12) = Inr (Fin 12) \<and> to_double id (PyFloat (Fin 30)) = Inr (Fin 30)
   \<and> score_nzmac_fl id (PyInt 12) (PyFloat (Fin 30)) ''bending'' ''knee'' = Inr (Fin 57.859375)"
proof -
  have a: "to_double id (PyInt 12) = Inr (Fin 12)" "to_double id (PyFloat (Fin 30)) = Inr (Fin 30)"
    by (simp_all add: to_double_def)
  have n: "Fin 12 \<noteq> NaN" "Fin 30 \<noteq> NaN" by simp_all
  show ?thesis
    using a score_nzmac_rounded_formula[OF a(1) n(1) a(2) n(2), of "''bending''" "''knee''" 12 30]
    by (simp add: interpolate_fl_def lifting_posture_mult_def lifting_height_mult_def clamp_def)
qed

lemma nzrapp_value: "score_nzrapp 18 25 ''smooth'' 20 = Inr 56.925"
  by (simp add: score_nzrapp_def np_interp_def interp_search_def dict_get_def np_clip_def)

text \<open>
  C3, as stated: \<^verbatim>\<open>score_nzrapp(18, 25, "smooth", 20)\<close> is about 42 and its tier with the
  default thresholds is Medium. It is false: the score is not within 1 of 42 and the
  tier is not Medium.
\<close>

theorem push_pull_scenario_counterexample:
  "\<not> (\<bar>projr (score_nzrapp 18 25 ''smooth'' 20) - 42\<bar> \<le> 1
       \<and> tier_from_score (projr (score_nzrapp 18 25 ''smooth'' 20)) DEFAULT_THRESHOLDS = Inr ''Medium'')"
  by (simp add: nzrapp_value tier_from_score_chain[OF default_lookup])

text \<open>
  C3, amended: \<^verbatim>\<open>score_nzrapp(18, 25, "smooth", 20)\<close> returns 56.925, about 57
  (force points 44, distance multiplier 1.125, surface 1.0, frequency multiplier 1.15),
  and its tier with the default thresholds is Med-High.
\<close>

theorem push_pull_scenario:
  "score_nzrapp 18 25 ''smooth'' 20 = Inr 56.925
   \<and> \<bar>projr (score_nzrapp 18 25 ''smooth'' 20) - 57\<bar> \<le> 1 / 2
   \<and> tier_from_score (projr (score_nzrapp 18 25 ''smooth'' 20)) DEFAULT_THRESHOLDS = Inr ''Med-High''"
  by (simp add: nzrapp_value tier_from_score_chain[OF default_lookup])




















subsection \<open>Recommendations\<close>

lemma recommendations_cases:
  "recommendations tier tool =
     (if tier = ''Med-High'' \<or> tier = ''High''
      then [rec_engineering, rec_rotate, rec_breaks, rec_train]
      else [rec_rotate, rec_breaks, rec_train])"
  by (simp add: recommendations_def Let_def)

lemma general_not_tool_specific:
  "rec_engineering \<notin> set tool_specific" "rec_rotate \<notin> set tool_specific"
  "rec_breaks \<notin> set tool_specific" "rec_train \<notin> set tool_specific"
  by (simp_all add: tool_specific_def rec_engineering_def rec_rotate_def rec_breaks_def
        rec_train_def rec_nzmac_def rec_nzrapp_def rec_nzart_def)

text \<open>
  C5. For every tier and every tool the selector returns at least 1 and at most 4
  strings, and for the tier Low the result holds no tool-specific suggestion.
\<close>

theorem recommendations_size:
  "1 \<le> length (recommendations tier tool) \<and> length (recommendations tier tool) \<le> 4
   \<and> (tier = ''Low'' \<longrightarrow> set (recommendations tier tool) \<inter> set tool_specific = {})"
  using general_not_tool_specific
  by (simp add: recommendations_cases)

theorem recommendations_size_witness:
  "recommendations ''Low'' ''NZMAC'' = [rec_rotate, rec_breaks, rec_train]
   \<and> 1 \<le> length (recommendations ''Low'' ''NZMAC'') \<and> length (recommendations ''Low'' ''NZMAC'') \<le> 4
   \<and> set (recommendations ''Low'' ''NZMAC'') \<inter> set tool_specific = {}"
  using recommendations_size[of "''Low''" "''NZMAC''"]
  by (simp add: recommendations_cases)

text \<open>
  C6. For every tier and tool the result never holds a tool-specific suggestion: for
  Med-High and High it is exactly the four general strings (engineering controls, rotate
  tasks, micro-breaks, training), the appended fifth entry being cut by the truncation to
  four, and for every other tier exactly the three base strings; so the result does not
  depend on the tool.
\<close>

theorem recommendations_general_only:
  "recommendations tier tool =
     (if tier = ''Med-High'' \<or> tier = ''High''
      then [rec_engineering, rec_rotate, rec_breaks, rec_train]
      else [rec_rotate, rec_breaks, rec_train])
   \<and> set (recommendations tier tool) \<inter> set tool_specific = {}
   \<and> recommendations tier tool = recommendations tier tool'"
  using general_not_tool_specific
  by (simp add: recommendations_cases)

theorem recommendations_general_only_witness:
  "recommendations ''High'' ''NZMAC'' = [rec_engineering, rec_rotate, rec_breaks, rec_train]
   \<and> set (recommendations ''High'' ''NZMAC'') \<inter> set tool_specific = {}
   \<and> recommendations ''High'' ''NZMAC'' = recommendations ''High'' ''NZART''"
  using recommendations_general_only[of "''High''" "''NZMAC''" "''NZART''"]
  by auto

subsection \<open>Import\<close>

lemma nrows_setitem_none [simp]: "nrows (setitem_none d c) = nrows d"
  by (simp add: setitem_none_def)

lemma nrows_align [simp]: "nrows (align_columns d cs) = nrows d"
  by (induction cs arbitrary: d) auto

lemma in_columns_iff: "c \<in> set (df_columns d) \<longleftrightarrow> map_of (cols d) c \<noteq> None"
  by (simp add: df_columns_def map_of_eq_None_iff)

lemma map_of_setitem_absent:
  assumes "c \<notin> set (df_columns d)"
  shows "map_of (cols (setitem_none d c)) k =
     (if k = c then Some (replicate (nrows d) NA) else map_of (cols d) k)"
proof -
  have none: "map_of (cols d) c = None"
    using assms by (simp add: in_columns_iff)
  have "map_of (cols d @ [(c, replicate (nrows d) NA)]) k =
          (if k = c then Some (replicate (nrows d) NA) else map_of (cols d) k)"
    using none by (simp add: map_add_def split: option.splits)
  then show ?thesis
    using assms by (simp add: setitem_none_def)
qed

lemma columns_setitem_absent:
  "c \<notin> set (df_columns d) \<Longrightarrow> set (df_columns (setitem_none d c)) = insert c (set (df_columns d))"
  by (auto simp add: setitem_none_def df_columns_def)

lemma map_of_align:
  "map_of (cols (align_columns d cs)) k =
     (if k \<in> set cs \<and> k \<notin> set (df_columns d) then Some (replicate (nrows d) NA)
      else map_of (cols d) k)"
proof (induction cs arbitrary: d)
  case Nil
  show ?case by simp
next
  case (Cons c cs)
  show ?case
  proof (cases "c \<in> set (df_columns d)")
    case True
    then show ?thesis using Cons.IH[of d] by auto
  next
    case False
    have nk: "map_of (cols d) c = None"
      using False by (simp add: df_columns_def map_of_eq_None_iff)
    show ?thesis
      using False Cons.IH[of "setitem_none d c"] nk
      by (auto simp add: map_of_setitem_absent columns_setitem_absent)
  qed
qed

lemma select_cols_ok:
  "\<forall>k \<in> set ks. map_of cs k \<noteq> None \<Longrightarrow>
   select_cols cs ks = Inr (map (\<lambda>k. (k, the (map_of cs k))) ks)"
  by (induction ks) auto

lemma align_select:
  "getitem_columns (align_columns t ks) ks =
     Inr \<lparr>nrows = nrows t,
          cols = map (\<lambda>c. (c, case map_of (cols t) c of None \<Rightarrow> replicate (nrows t) NA | Some v \<Rightarrow> v)) ks\<rparr>"
proof -
  have pres: "\<forall>k \<in> set ks. map_of (cols (align_columns t ks)) k \<noteq> None"
    by (simp add: map_of_align in_columns_iff)
  have vals: "\<forall>k \<in> set ks. the (map_of (cols (align_columns t ks)) k) =
        (case map_of (cols t) k of None \<Rightarrow> replicate (nrows t) NA | Some v \<Rightarrow> v)"
    by (auto simp add: map_of_align in_columns_iff split: option.splits)
  have sel: "select_cols (cols (align_columns t ks)) ks =
        Inr (map (\<lambda>c. (c, case map_of (cols t) c of None \<Rightarrow> replicate (nrows t) NA | Some v \<Rightarrow> v)) ks)"
    unfolding select_cols_ok[OF pres] using vals by simp
  have "(align_columns t ks)\<lparr>cols := r\<rparr> = \<lparr>nrows = nrows t, cols = r\<rparr>" for r
    by (rule dataframe.equality) simp_all
  then show ?thesis
    by (simp add: getitem_columns_def sel)
qed

text \<open>
  C9. Import is all-or-nothing. When reading the uploaded source raises, the session,
  and with it the record store, is returned exactly as it was, and the error is reported;
  when reading succeeds, the store is replaced as a whole by the normalised new table
  (the fixed columns in the fixed order, missing ones filled with nulls).
\<close>

theorem import_all_or_nothing:
  "(read_csv f = Inl e \<longrightarrow> import_page read_csv (Some f) st = (st, Some (Error_msg e)))
   \<and> (read_csv f = Inr t \<longrightarrow>
        import_page read_csv (Some f) st =
          (st\<lparr>df := normalized t\<rparr>, Some (Success_msg ''Data replaced.'')))"
  by (simp add: import_page_def import_try_def align_select normalized_def)

theorem import_all_or_nothing_witness:
  "import_page
      (\<lambda>u. if u = [] then Inl (ParserError ''No columns to parse from file'')
            else Inr \<lparr>nrows = 1, cols = [(''extra'', [Text u]), (''tool'', [Text ''NZMAC''])]\<rparr>)
      (Some [])
      \<lparr>df = \<lparr>nrows = 0, cols = []\<rparr>, thresholds = DEFAULT_THRESHOLDS\<rparr>
    = (\<lparr>df = \<lparr>nrows = 0, cols = []\<rparr>, thresholds = DEFAULT_THRESHOLDS\<rparr>,
       Some (Error_msg (ParserError ''No columns to parse from file'')))
   \<and> import_page
      (\<lambda>u. if u = [] then Inl (ParserError ''No columns to parse from file'')
            else Inr \<lparr>nrows = 1, cols = [(''extra'', [Text u]), (''tool'', [Text ''NZMAC''])]\<rparr>)
      (Some ''x'')
      \<lparr>df = \<lparr>nrows = 0, cols = []\<rparr>, thresholds = DEFAULT_THRESHOLDS\<rparr>
    = (\<lparr>df = normalized \<lparr>nrows = 1, cols = [(''extra'', [Text ''x'']), (''tool'', [Text ''NZMAC''])]\<rparr>,
        thresholds = DEFAULT_THRESHOLDS\<rparr>,
       Some (Success_msg ''Data replaced.''))"
  using import_all_or_nothing[of
          "\<lambda>u. if u = [] then Inl (ParserError ''No columns to parse from file'')
            else Inr \<lparr>nrows = 1, cols = [(''extra'', [Text u]), (''tool'', [Text ''NZMAC''])]\<rparr>"
          "[]" "ParserError ''No columns to parse from file''"
          "\<lparr>df = \<lparr>nrows = 0, cols = []\<rparr>, thresholds = DEFAULT_THRESHOLDS\<rparr>"]
        import_all_or_nothing[of
          "\<lambda>u. if u = [] then Inl (ParserError ''No columns to parse from file'')
            else Inr \<lparr>nrows = 1, cols = [(''extra'', [Text u]), (''tool'', [Text ''NZMAC''])]\<rparr>"
          "''x''" _ "\<lparr>df = \<lparr>nrows = 0, cols = []\<rparr>, thresholds = DEFAULT_THRESHOLDS\<rparr>"
          "\<lparr>nrows = 1, cols = [(''extra'', [Text ''x'']), (''tool'', [Text ''NZMAC''])]\<rparr>"]
  by simp

end
